theory Spec2Isabelle
  imports Complex_Main "HOL-Library.Multiset"
begin

section \<open>Data model\<close>

text \<open>
  \<open>Real\<close> is the C++ \<open>double\<close>. Its values are real numbers here, and an operation in
  double arithmetic returns the exact result rounded to the nearest number with a
  significand of 53 bits, ties to the even significand: \<open>round_double\<close> below. Overflow,
  subnormal numbers and NaN are not modelled. The relation builder and the periodic
  ghost pass decide their comparisons on rounded results, and every operation of theirs
  is rounded. The periodic setup and bounding, the mirror reflection and the bounding-box
  reductions are taken over exact real arithmetic.

  \<open>Vecd\<close> of the shared sources is a vector whose dimension is fixed by the build; it is a
  list of components, read with \<open>v ! k\<close> and written with \<open>v[k := x]\<close>. The theorems state
  the index conditions under which these accesses are in range.
\<close>

type_synonym Real = real
type_synonym Vecd = "Real list"

definition round_to_even :: "real \<Rightarrow> int" where
  "round_to_even y =
     (let f = \<lfloor>y\<rfloor>
      in if y - of_int f < 1 / 2 then f
         else if 1 / 2 < y - of_int f then f + 1
         else if even f then f else f + 1)"

definition binary_exponent :: "real \<Rightarrow> int" where
  "binary_exponent x = \<lfloor>log 2 \<bar>x\<bar>\<rfloor>"

definition ulp_at :: "int \<Rightarrow> real" where
  "ulp_at e = (if 52 \<le> e then 2 ^ nat (e - 52) else 1 / 2 ^ nat (52 - e))"

definition round_double :: "real \<Rightarrow> real" where
  "round_double x =
     (if x = 0 then 0
      else ulp_at (binary_exponent x)
             * of_int (round_to_even (x / ulp_at (binary_exponent x))))"

text \<open>
  \<open>a + b\<close> and \<open>a - b\<close> of \<open>Vecd\<close> in double arithmetic, as the periodic ghost pass uses
  them, and \<open>norm()\<close>, as the periodic setup uses it.
\<close>

definition vec_add :: "Vecd \<Rightarrow> Vecd \<Rightarrow> Vecd" where
  "vec_add a b = map2 (\<lambda>x y. round_double (x + y)) a b"

definition vec_sub :: "Vecd \<Rightarrow> Vecd \<Rightarrow> Vecd" where
  "vec_sub a b = map2 (\<lambda>x y. round_double (x - y)) a b"


text \<open>
  The particle container: flat per-attribute arrays indexed by particle index. The
  arrays this code reads and writes are \<open>pos_n_\<close>, \<open>vel_n_\<close> and \<open>sorted_id_\<close>; every
  other per-particle attribute is kept in \<open>other_data\<close>.
\<close>

record 'a BaseParticles =
  pos_n :: "Vecd list"
  vel_n :: "Vecd list"
  sorted_id :: "nat list"
  other_data :: "'a list"
  total_real_particles :: nat
  number_of_ghost_particles :: nat

text \<open>
  The members of \<open>BoundingBodyDomain\<close> and \<open>BoundingInAxisDirection\<close> that the boundary
  conditions read, with \<open>body_->particle_spacing_\<close> and the \<open>periodic_translation_\<close> of
  \<open>PeriodicConditionInAxisDirection\<close>.
\<close>

record Bounding =
  axis :: nat
  body_lower_bound :: Vecd
  body_upper_bound :: Vecd
  cell_spacing :: Real
  particle_spacing :: Real
  periodic_translation :: Vecd

text \<open>
  \<open>exit(1)\<close> after a diagnostic on \<open>std::cout\<close>: the run ends with the exit code, the
  message and the state the program had at that point.
\<close>

datatype 'st exit = Exit (exit_code: nat) (diagnostic: string) (state_at_exit: 'st)

section \<open>Periodic condition: setup, bounding and the generic entry points\<close>




text \<open>
  \<open>PeriodicConditionInAxisDirection::exec\<close> and \<open>parallel_exec\<close>: two output statements
  and \<open>exit(1)\<close>; the state \<open>st\<close> (the condition, the particles, the grid) is not touched.
\<close>

definition PeriodicConditionInAxisDirection_exec :: "'st \<Rightarrow> Real \<Rightarrow> 'st exit + 'st" where
  "PeriodicConditionInAxisDirection_exec st dt =
     Inl (Exit 1 ''Error: each step should be called separately.'' st)"

definition PeriodicConditionInAxisDirection_parallel_exec :: "'st \<Rightarrow> Real \<Rightarrow> 'st exit + 'st" where
  "PeriodicConditionInAxisDirection_parallel_exec st dt =
     Inl (Exit 1 ''Error: each step should be called separately.'' st)"

section \<open>Ghost particles\<close>

text \<open>
  Modelled from the spec: \<open>BaseParticles::insertAGhostParticle\<close> is not among the sources.
  The spec's container offers \<open>insertGhost(sourceIndex) -> newIndex\<close>, which allocates a
  ghost slot copying all attributes of a real particle; real particles occupy the indices
  below \<open>total_real\<close> and ghosts a trailing, dynamically resized range; and a ghost is
  later refreshed from its originating particle through its sorted identity. So the new
  slot is the first one behind the real particles and the ghosts counted so far, it is
  overwritten when the arrays already reach that far and appended otherwise, and its
  \<open>sorted_id_\<close> is the source index.
\<close>

definition write_slot :: "'b list \<Rightarrow> nat \<Rightarrow> 'b \<Rightarrow> 'b list" where
  "write_slot xs k v = (if k < length xs then xs[k := v] else xs @ [v])"

definition insertAGhostParticle :: "'a BaseParticles \<Rightarrow> nat \<Rightarrow> nat \<times> 'a BaseParticles" where
  "insertAGhostParticle ps index_i =
     (let expected_particle_index = total_real_particles ps + number_of_ghost_particles ps
      in (expected_particle_index,
          ps\<lparr>pos_n := write_slot (pos_n ps) expected_particle_index (pos_n ps ! index_i),
             vel_n := write_slot (vel_n ps) expected_particle_index (vel_n ps ! index_i),
             sorted_id := write_slot (sorted_id ps) expected_particle_index index_i,
             other_data := write_slot (other_data ps) expected_particle_index (other_data ps ! index_i),
             number_of_ghost_particles := number_of_ghost_particles ps + 1\<rparr>))"


text \<open>
  Modelled from the spec: \<open>InsertACellLinkedListDataEntry\<close> of the grid is not among the
  sources; the spec's \<open>insertEntry(index, position)\<close> adds a single entry to the
  appropriate cell. The boundary conditions only hand the pair over, so on this side the
  grid is the sequence of entries registered with it.
\<close>

type_synonym ListData = "nat \<times> Vecd"

definition InsertACellLinkedListDataEntry :: "ListData list \<Rightarrow> nat \<Rightarrow> Vecd \<Rightarrow> ListData list" where
  "InsertACellLinkedListDataEntry entries particle_index position
     = entries @ [(particle_index, position)]"

text \<open>
  What a ghost-creating pass works on: the particles of the body and the entries
  registered with its grid. The periodic condition keeps \<open>ghost_particles_[0]\<close> (lower
  side) and \<open>ghost_particles_[1]\<close> (upper side); a mirror condition keeps one index vector
  for its side.
\<close>

record 'a BodyState =
  particles :: "'a BaseParticles"
  cell_list_entries :: "ListData list"

record 'a PeriodicGhostState = "'a BodyState" +
  ghost_particles :: "nat list list"

record 'a MirrorGhostState = "'a BodyState" +
  mirror_ghost_particles :: "nat list"

subsection \<open>Periodic ghosts\<close>

definition CreatPeriodicGhostParticles_setupDynamics ::
  "'a PeriodicGhostState \<Rightarrow> Real \<Rightarrow> 'a PeriodicGhostState" where
  "CreatPeriodicGhostParticles_setupDynamics st dt
     = st\<lparr>ghost_particles := map (\<lambda>_. []) (ghost_particles st)\<rparr>"

definition CreatPeriodicGhostParticles_checkLowerBound ::
  "Bounding \<Rightarrow> 'a PeriodicGhostState \<Rightarrow> nat \<Rightarrow> Real \<Rightarrow> 'a PeriodicGhostState" where
  "CreatPeriodicGhostParticles_checkLowerBound b st index_i dt =
     (let particle_position = pos_n (particles st) ! index_i
      in if particle_position ! axis b > body_lower_bound b ! axis b
            \<and> particle_position ! axis b
                < round_double (body_lower_bound b ! axis b + cell_spacing b)
         then (let (expected_particle_index, ps') = insertAGhostParticle (particles st) index_i;
                   translated_position = vec_add particle_position (periodic_translation b)
               in st\<lparr>particles := ps',
                     ghost_particles := (ghost_particles st)[0 :=
                        ghost_particles st ! 0 @ [expected_particle_index]],
                     cell_list_entries := InsertACellLinkedListDataEntry (cell_list_entries st)
                        expected_particle_index translated_position\<rparr>)
         else st)"

definition CreatPeriodicGhostParticles_checkUpperBound ::
  "Bounding \<Rightarrow> 'a PeriodicGhostState \<Rightarrow> nat \<Rightarrow> Real \<Rightarrow> 'a PeriodicGhostState" where
  "CreatPeriodicGhostParticles_checkUpperBound b st index_i dt =
     (let particle_position = pos_n (particles st) ! index_i
      in if particle_position ! axis b < body_upper_bound b ! axis b
            \<and> particle_position ! axis b
                > round_double (body_upper_bound b ! axis b - cell_spacing b)
         then (let (expected_particle_index, ps') = insertAGhostParticle (particles st) index_i;
                   translated_position = vec_sub particle_position (periodic_translation b)
               in st\<lparr>particles := ps',
                     ghost_particles := (ghost_particles st)[1 :=
                        ghost_particles st ! 1 @ [expected_particle_index]],
                     cell_list_entries := InsertACellLinkedListDataEntry (cell_list_entries st)
                        expected_particle_index translated_position\<rparr>)
         else st)"

text \<open>
  Modelled from the spec: the driver of the create pass is declared in a header that is
  not among the sources. Per the spec, each step (1) clears the tracked ghost indices, (2)
  runs the lower-bound check for every real particle and, symmetrically, the upper-bound
  check for every real particle. The pass is sequential.
\<close>

definition CreatPeriodicGhostParticles_exec ::
  "Bounding \<Rightarrow> 'a PeriodicGhostState \<Rightarrow> Real \<Rightarrow> 'a PeriodicGhostState" where
  "CreatPeriodicGhostParticles_exec b st dt =
     (let st0 = CreatPeriodicGhostParticles_setupDynamics st dt;
          real_particles = [0..<total_real_particles (particles st0)];
          st1 = fold (\<lambda>index_i s. CreatPeriodicGhostParticles_checkLowerBound b s index_i dt)
                  real_particles st0
      in fold (\<lambda>index_i s. CreatPeriodicGhostParticles_checkUpperBound b s index_i dt)
           real_particles st1)"

text \<open>
  Notions the theorems about the periodic create pass are stated with. The position a
  ghost is registered at: the source position plus the translation on the lower side
  (\<open>ghost_particles_[0]\<close>), minus the translation on the upper side
  (\<open>ghost_particles_[1]\<close>). A recorded ghost index of a side is in order, relative to the
  particles \<open>ps0\<close> at the start of the pass, when it lies behind the slots that existed
  then and within the ghosts counted now, its \<open>sorted_id_\<close> names a real particle, its
  slot of \<open>pos_n_\<close> is the position of that particle, and the grid holds exactly one entry
  for it, at the ghost position of its side. The invariant of the pass: the arrays are
  well formed, the real particles are where they were, every grid entry names an existing
  slot, and every recorded ghost is in order. \<open>ghost_sources\<close> lists the real particles
  the recorded ghosts of a side were created from.
\<close>

definition periodic_ghost_position :: "Bounding \<Rightarrow> nat \<Rightarrow> Vecd \<Rightarrow> Vecd" where
  "periodic_ghost_position b side particle_position =
     (if side = 0 then vec_add particle_position (periodic_translation b)
      else vec_sub particle_position (periodic_translation b))"




subsection \<open>Mirror ghosts\<close>

definition mirrorInAxisDirection ::
  "'a BaseParticles \<Rightarrow> nat \<Rightarrow> Vecd \<Rightarrow> nat \<Rightarrow> 'a BaseParticles" where
  "mirrorInAxisDirection ps particle_index_i body_bound axis_direction =
     ps\<lparr>pos_n := (pos_n ps)[particle_index_i := (pos_n ps ! particle_index_i)[axis_direction :=
            2 * body_bound ! axis_direction - pos_n ps ! particle_index_i ! axis_direction]],
        vel_n := (vel_n ps)[particle_index_i := (vel_n ps ! particle_index_i)[axis_direction :=
            vel_n ps ! particle_index_i ! axis_direction * (- 1)]]\<rparr>"

definition CreatingGhostParticles_checkLowerBound ::
  "Bounding \<Rightarrow> 'a MirrorGhostState \<Rightarrow> nat \<Rightarrow> Real \<Rightarrow> 'a MirrorGhostState" where
  "CreatingGhostParticles_checkLowerBound b st index_i dt =
     (let particle_position = pos_n (particles st) ! index_i
      in if particle_position ! axis b > body_lower_bound b ! axis b
            \<and> particle_position ! axis b < body_lower_bound b ! axis b + cell_spacing b
         then (let (expected_particle_index, ps') = insertAGhostParticle (particles st) index_i;
                   ps'' = mirrorInAxisDirection ps' expected_particle_index
                            (body_lower_bound b) (axis b);
                   translated_position = pos_n ps'' ! expected_particle_index
               in st\<lparr>particles := ps'',
                     mirror_ghost_particles := mirror_ghost_particles st @ [expected_particle_index],
                     cell_list_entries := InsertACellLinkedListDataEntry (cell_list_entries st)
                        expected_particle_index translated_position\<rparr>)
         else st)"

definition CreatingGhostParticles_checkUpperBound ::
  "Bounding \<Rightarrow> 'a MirrorGhostState \<Rightarrow> nat \<Rightarrow> Real \<Rightarrow> 'a MirrorGhostState" where
  "CreatingGhostParticles_checkUpperBound b st index_i dt =
     (let particle_position = pos_n (particles st) ! index_i
      in if particle_position ! axis b < body_upper_bound b ! axis b
            \<and> particle_position ! axis b > body_upper_bound b ! axis b - cell_spacing b
         then (let (expected_particle_index, ps') = insertAGhostParticle (particles st) index_i;
                   ps'' = mirrorInAxisDirection ps' expected_particle_index
                            (body_upper_bound b) (axis b);
                   translated_position = pos_n ps'' ! expected_particle_index
               in st\<lparr>particles := ps'',
                     mirror_ghost_particles := mirror_ghost_particles st @ [expected_particle_index],
                     cell_list_entries := InsertACellLinkedListDataEntry (cell_list_entries st)
                        expected_particle_index translated_position\<rparr>)
         else st)"

text \<open>
  The constructor of \<open>MirrorBounding\<close> binds \<open>checking_bound_\<close> to the upper check when
  \<open>positive\<close> holds and to the lower check otherwise.
\<close>

definition CreatingGhostParticles_checking_bound ::
  "bool \<Rightarrow> Bounding \<Rightarrow> 'a MirrorGhostState \<Rightarrow> nat \<Rightarrow> Real \<Rightarrow> 'a MirrorGhostState" where
  "CreatingGhostParticles_checking_bound positive =
     (if positive then CreatingGhostParticles_checkUpperBound
      else CreatingGhostParticles_checkLowerBound)"

text \<open>
  Modelled from the spec: the driver of the mirror create pass is not among the sources.
  Per the spec it has the structure of the periodic one for its single side: the tracked
  ghost indices are cleared, then the bound check runs for every real particle,
  sequentially.
\<close>

definition CreatingGhostParticles_exec ::
  "bool \<Rightarrow> Bounding \<Rightarrow> 'a MirrorGhostState \<Rightarrow> Real \<Rightarrow> 'a MirrorGhostState" where
  "CreatingGhostParticles_exec positive b st dt =
     fold (\<lambda>index_i s. CreatingGhostParticles_checking_bound positive b s index_i dt)
       [0..<total_real_particles (particles st)]
       (st\<lparr>mirror_ghost_particles := []\<rparr>)"

section \<open>Bounding-box reductions\<close>

text \<open>
  \<open>std::numeric_limits<double>::max()\<close> is the largest finite double and
  \<open>std::numeric_limits<double>::min()\<close> the smallest positive normalised double.
\<close>

definition max_real_number :: Real where
  "max_real_number = (2 - 1 / 2 ^ 52) * 2 ^ 1023"

definition min_real_number :: Real where
  "min_real_number = 1 / 2 ^ 1022"

text \<open>\<open>Vecd(x)\<close>: every component is \<open>x\<close>; \<open>dimension\<close> is the dimension of the build.\<close>

definition BodyLowerBound_initial_reference :: "nat \<Rightarrow> Vecd" where
  "BodyLowerBound_initial_reference dimension = replicate dimension max_real_number"

definition BodyUpperBound_initial_reference :: "nat \<Rightarrow> Vecd" where
  "BodyUpperBound_initial_reference dimension = replicate dimension min_real_number"

definition BodyLowerBound_ReduceFunction :: "'a BaseParticles \<Rightarrow> nat \<Rightarrow> Real \<Rightarrow> Vecd" where
  "BodyLowerBound_ReduceFunction ps index_i dt = pos_n ps ! index_i"

definition BodyUpperBound_ReduceFunction :: "'a BaseParticles \<Rightarrow> nat \<Rightarrow> Real \<Rightarrow> Vecd" where
  "BodyUpperBound_ReduceFunction ps index_i dt = pos_n ps ! index_i"

text \<open>
  Modelled from the spec: \<open>ParticleDynamicsReduce\<close> and the combiners \<open>ReduceLowerBound\<close>
  and \<open>ReduceUpperBound\<close> are not among the sources. The spec describes a generic reduce
  over the particle set with a per-particle mapping and a combiner, min or max by
  coordinate for bounding boxes, seeded with the identity element \<open>initial_reference_\<close>.
\<close>

definition ReduceLowerBound :: "Vecd \<Rightarrow> Vecd \<Rightarrow> Vecd" where
  "ReduceLowerBound x y = map2 min x y"

definition ReduceUpperBound :: "Vecd \<Rightarrow> Vecd \<Rightarrow> Vecd" where
  "ReduceUpperBound x y = map2 max x y"

definition ParticleDynamicsReduce_exec ::
  "'r \<Rightarrow> ('r \<Rightarrow> 'r \<Rightarrow> 'r) \<Rightarrow> (nat \<Rightarrow> Real \<Rightarrow> 'r) \<Rightarrow> nat \<Rightarrow> Real \<Rightarrow> 'r" where
  "ParticleDynamicsReduce_exec initial_reference reduce_operation reduce_function
       number_of_particles dt =
     fold (\<lambda>index_i temp. reduce_operation temp (reduce_function index_i dt))
       [0..<number_of_particles] initial_reference"

definition BodyLowerBound_exec :: "nat \<Rightarrow> 'a BaseParticles \<Rightarrow> Real \<Rightarrow> Vecd" where
  "BodyLowerBound_exec dimension ps dt =
     ParticleDynamicsReduce_exec (BodyLowerBound_initial_reference dimension) ReduceLowerBound
       (BodyLowerBound_ReduceFunction ps) (total_real_particles ps) dt"

definition BodyUpperBound_exec :: "nat \<Rightarrow> 'a BaseParticles \<Rightarrow> Real \<Rightarrow> Vecd" where
  "BodyUpperBound_exec dimension ps dt =
     ParticleDynamicsReduce_exec (BodyUpperBound_initial_reference dimension) ReduceUpperBound
       (BodyUpperBound_ReduceFunction ps) (total_real_particles ps) dt"

section \<open>Cell linked list and contact relation of the 2D build\<close>

text \<open>
  \<open>body_relation.hpp\<close> belongs to the 2D build, where \<open>Vecd\<close> is a pair of doubles and
  \<open>Vecu\<close> a pair of unsigned indices. A cell's \<open>cell_list_data_\<close> is a list of pairs of
  particle index and position, and \<open>matrix_cell\<close> is an array of rows of cells. The
  difference of two vectors and \<open>normSqr()\<close> are computed in double arithmetic.
\<close>

type_synonym Vec2d = "Real \<times> Real"
type_synonym Vecu = "nat \<times> nat"
type_synonym CellListData = "nat \<times> Vec2d"

definition vec2_sub :: "Vec2d \<Rightarrow> Vec2d \<Rightarrow> Vec2d" where
  "vec2_sub a b = (round_double (fst a - fst b), round_double (snd a - snd b))"

definition normSqr :: "Vec2d \<Rightarrow> Real" where
  "normSqr v = round_double (round_double (fst v * fst v) + round_double (snd v * snd v))"

record BaseMeshCellLinkedList =
  MeshLowerBound :: Vec2d
  CellSpacing :: Real
  NumberOfCells :: Vecu
  CellLinkedLists :: "CellListData list list list"

text \<open>
  Modelled from the spec: \<open>GridIndexFromPosition\<close> is not among the sources. The spec's
  grid maps a position to integer cell coordinates by
  \<open>floor((position - lower_bound) / cell_spacing)\<close>, and a position outside the nominal
  bounds falls silently to a clamped cell index. The difference and the quotient are
  double operations.
\<close>

definition clamp_cell :: "int \<Rightarrow> nat \<Rightarrow> nat" where
  "clamp_cell k n = nat (max 0 (min k (int n - 1)))"

definition GridIndexFromPosition :: "BaseMeshCellLinkedList \<Rightarrow> Vec2d \<Rightarrow> Vecu" where
  "GridIndexFromPosition mesh position =
     (clamp_cell
        \<lfloor>round_double (round_double (fst position - fst (MeshLowerBound mesh))
                         / CellSpacing mesh)\<rfloor>
        (fst (NumberOfCells mesh)),
      clamp_cell
        \<lfloor>round_double (round_double (snd position - snd (MeshLowerBound mesh))
                         / CellSpacing mesh)\<rfloor>
        (snd (NumberOfCells mesh)))"

text \<open>
  Modelled from the spec: the grid's \<open>insertEntry(index, position)\<close> adds a single entry
  to the cell of the position, and \<open>rebuild(particles)\<close> clears every cell and re-inserts
  every particle by its computed cell coordinate.
\<close>

definition insertEntry :: "BaseMeshCellLinkedList \<Rightarrow> CellListData \<Rightarrow> BaseMeshCellLinkedList" where
  "insertEntry mesh entry =
     (let (l, m) = GridIndexFromPosition mesh (snd entry);
          cells = CellLinkedLists mesh
      in mesh\<lparr>CellLinkedLists := cells[l := (cells ! l)[m := cells ! l ! m @ [entry]]]\<rparr>)"


text \<open>
  A \<open>Neighborhood\<close> holds, per slot, the neighbour's index, the displacement from the
  neighbour to the particle and the kernel data computed from it; the kernel is the
  parameter \<open>current_kernel\<close>. \<open>memory_size_\<close> is the capacity, \<open>current_size_\<close> the
  number of slots valid in this step.
\<close>

record 'k NeighborRelation =
  j_index :: nat
  r_ij :: Vec2d
  W_ij :: 'k

record 'k Neighborhood =
  current_size :: nat
  memory_size :: nat
  relations :: "'k NeighborRelation list"

text \<open>
  Modelled from the spec: \<open>createNeighborRelation\<close> and \<open>initializeNeighborRelation\<close> are
  not among the sources. Per the spec, an accepted neighbour overwrites the slot at the
  running count in place when the count is below the capacity, and is appended
  otherwise, growing the capacity by one.
\<close>

definition createNeighborRelation ::
  "'k Neighborhood \<Rightarrow> (Vec2d \<Rightarrow> 'k) \<Rightarrow> Vec2d \<Rightarrow> nat \<Rightarrow> nat \<Rightarrow> 'k Neighborhood" where
  "createNeighborRelation neighborhood current_kernel displacement index_i index_j =
     neighborhood\<lparr>relations := relations neighborhood @
                     [\<lparr>j_index = index_j, r_ij = displacement, W_ij = current_kernel displacement\<rparr>],
                  memory_size := memory_size neighborhood + 1\<rparr>"

definition initializeNeighborRelation ::
  "'k Neighborhood \<Rightarrow> nat \<Rightarrow> (Vec2d \<Rightarrow> 'k) \<Rightarrow> Vec2d \<Rightarrow> nat \<Rightarrow> nat \<Rightarrow> 'k Neighborhood" where
  "initializeNeighborRelation neighborhood current_count_of_neighbors current_kernel displacement
       index_i index_j =
     neighborhood\<lparr>relations := (relations neighborhood)[current_count_of_neighbors :=
                     \<lparr>j_index = index_j, r_ij = displacement, W_ij = current_kernel displacement\<rparr>]\<rparr>"

text \<open>
  \<open>SMAX\<close> and \<open>SMIN\<close> are the maximum and minimum macros. \<open>int\<close> is 32 bits wide: a cast to
  \<open>int\<close> and \<open>int\<close> arithmetic are taken modulo \<open>2^32\<close> into the signed range.
\<close>

definition SMAX :: "int \<Rightarrow> int \<Rightarrow> int" where
  "SMAX a b = max a b"

definition SMIN :: "int \<Rightarrow> int \<Rightarrow> int" where
  "SMIN a b = min a b"

definition int_cast :: "int \<Rightarrow> int" where
  "int_cast x = (x + 2 ^ 31) mod 2 ^ 32 - 2 ^ 31"

text \<open>
  A read of \<open>target_cell_linked_lists[l][m]\<close> outside the array is undefined behaviour in
  C++; it is the one failure the per-particle loop could have, and the model returns it
  as an error.
\<close>

datatype error = OutOfRange

definition cell_at :: "CellListData list list list \<Rightarrow> int \<Rightarrow> int \<Rightarrow> error + CellListData list" where
  "cell_at cells l m =
     (if 0 \<le> l \<and> nat l < length cells \<and> 0 \<le> m \<and> nat m < length (cells ! nat l)
      then Inr (cells ! nat l ! nat m) else Inl OutOfRange)"

text \<open>The body of the loop over the entries \<open>n\<close> of one cell.\<close>

definition check_candidate ::
  "(Vec2d \<Rightarrow> 'k) \<Rightarrow> Real \<Rightarrow> nat \<Rightarrow> Vec2d \<Rightarrow> CellListData
     \<Rightarrow> 'k Neighborhood \<times> nat \<Rightarrow> 'k Neighborhood \<times> nat" where
  "check_candidate current_kernel cutoff_radius_sqr index_i particle_position target_particle acc =
     (let (neighborhood, current_count_of_neighbors) = acc;
          displacement = vec2_sub particle_position (snd target_particle)
      in if normSqr displacement \<le> cutoff_radius_sqr
         then ((if current_count_of_neighbors \<ge> memory_size neighborhood
                then createNeighborRelation neighborhood current_kernel displacement index_i
                       (fst target_particle)
                else initializeNeighborRelation neighborhood current_count_of_neighbors
                       current_kernel displacement index_i (fst target_particle)),
               current_count_of_neighbors + 1)
         else (neighborhood, current_count_of_neighbors))"

text \<open>
  The loops over \<open>l\<close> and \<open>m\<close> visit the cells of the window row by row; \<open>search_window\<close>
  lists them in that order. Each loop runs from its lower to its upper bound, the upper
  bound being below the largest \<open>int\<close> for any grid that fits in memory.
\<close>

definition search_window :: "BaseMeshCellLinkedList \<Rightarrow> int \<Rightarrow> Vec2d \<Rightarrow> (int \<times> int) list" where
  "search_window target_mesh search_range particle_position =
     (let target_number_of_cells = NumberOfCells target_mesh;
          target_cell_index = GridIndexFromPosition target_mesh particle_position;
          i = int_cast (int (fst target_cell_index));
          j = int_cast (int (snd target_cell_index))
      in List.product
           [SMAX (int_cast (i - search_range)) 0 ..
            SMIN (int_cast (i + search_range))
                 (int_cast (int_cast (int (fst target_number_of_cells)) - 1))]
           [SMAX (int_cast (j - search_range)) 0 ..
            SMIN (int_cast (j + search_range))
                 (int_cast (int_cast (int (snd target_number_of_cells)) - 1))])"

fun scan_cells ::
  "(Vec2d \<Rightarrow> 'k) \<Rightarrow> Real \<Rightarrow> nat \<Rightarrow> Vec2d \<Rightarrow> CellListData list list list
     \<Rightarrow> (int \<times> int) list \<Rightarrow> 'k Neighborhood \<times> nat \<Rightarrow> error + 'k Neighborhood \<times> nat" where
  "scan_cells current_kernel cutoff_radius_sqr index_i particle_position cells [] acc = Inr acc"
| "scan_cells current_kernel cutoff_radius_sqr index_i particle_position cells ((l, m) # window) acc =
     (case cell_at cells l m of
        Inl e \<Rightarrow> Inl e
      | Inr target_particles \<Rightarrow>
          scan_cells current_kernel cutoff_radius_sqr index_i particle_position cells window
            (fold (check_candidate current_kernel cutoff_radius_sqr index_i particle_position)
               target_particles acc))"

text \<open>
  One iteration of the loop over the particles in \<open>updateConfigurationForParticles\<close>, for
  one contact body: \<open>particle_position\<close> is \<open>pos_n_[index_i]\<close> and \<open>neighborhood\<close> is
  \<open>contact_configuration_[relation_body_num][index_i]\<close>. \<open>search_range\<close> is the value of
  \<open>computeSearchRange\<close> and \<open>cutoff_radius\<close> that of \<open>GetCutOffRadius\<close> for the chosen
  kernel; both functions are outside the sources and their values are parameters.
  \<open>powern(x, 2)\<close> is the product \<open>x * x\<close> in double arithmetic. The iterations for different particles write different neighbourhoods and only read the
  grid.
\<close>

definition updateConfigurationForParticle ::
  "BaseMeshCellLinkedList \<Rightarrow> int \<Rightarrow> (Vec2d \<Rightarrow> 'k) \<Rightarrow> Real \<Rightarrow> nat \<Rightarrow> Vec2d
     \<Rightarrow> 'k Neighborhood \<Rightarrow> error + 'k Neighborhood" where
  "updateConfigurationForParticle target_mesh search_range current_kernel cutoff_radius index_i
       particle_position neighborhood =
     (let cutoff_radius_sqr = round_double (cutoff_radius * cutoff_radius)
      in case scan_cells current_kernel cutoff_radius_sqr index_i particle_position
                (CellLinkedLists target_mesh)
                (search_window target_mesh search_range particle_position)
                (neighborhood, 0) of
           Inl e \<Rightarrow> Inl e
         | Inr (neighborhood', current_count_of_neighbors) \<Rightarrow>
             Inr (neighborhood'\<lparr>current_size := current_count_of_neighbors\<rparr>))"


text \<open>
  Notions the theorems about the relation builder are stated with: the neighbour entry
  written for an accepted candidate; the entries accepted from a list of candidates, in
  order; the candidates of the cells of the window, in the order the loops visit them; a
  grid whose cell array has the dimensions \<open>NumberOfCells\<close> announces; a neighbourhood
  whose capacity is the length of its arrays, as \<open>createNeighborRelation\<close> keeps it; and
  the relation builds of successive steps for one particle, each with the grid and the
  position of its step.
\<close>

definition neighbor_relation :: "(Vec2d \<Rightarrow> 'k) \<Rightarrow> Vec2d \<Rightarrow> CellListData \<Rightarrow> 'k NeighborRelation" where
  "neighbor_relation current_kernel particle_position target_particle =
     \<lparr>j_index = fst target_particle,
      r_ij = vec2_sub particle_position (snd target_particle),
      W_ij = current_kernel (vec2_sub particle_position (snd target_particle))\<rparr>"

definition accepted_relations ::
  "(Vec2d \<Rightarrow> 'k) \<Rightarrow> Real \<Rightarrow> Vec2d \<Rightarrow> CellListData list \<Rightarrow> 'k NeighborRelation list" where
  "accepted_relations current_kernel cutoff_radius_sqr particle_position candidates =
     map (neighbor_relation current_kernel particle_position)
       (filter (\<lambda>target_particle.
          normSqr (vec2_sub particle_position (snd target_particle)) \<le> cutoff_radius_sqr)
        candidates)"

definition visited_entries :: "BaseMeshCellLinkedList \<Rightarrow> int \<Rightarrow> Vec2d \<Rightarrow> CellListData list" where
  "visited_entries target_mesh search_range particle_position =
     concat (map (\<lambda>(l, m). CellLinkedLists target_mesh ! nat l ! nat m)
               (search_window target_mesh search_range particle_position))"

definition mesh_wf :: "BaseMeshCellLinkedList \<Rightarrow> bool" where
  "mesh_wf mesh =
     (length (CellLinkedLists mesh) = fst (NumberOfCells mesh)
      \<and> list_all (\<lambda>row. length row = snd (NumberOfCells mesh)) (CellLinkedLists mesh))"

definition neighborhood_wf :: "'k Neighborhood \<Rightarrow> bool" where
  "neighborhood_wf neighborhood = (memory_size neighborhood = length (relations neighborhood))"




primrec relation_build_steps ::
  "(BaseMeshCellLinkedList \<times> Vec2d) list \<Rightarrow> int \<Rightarrow> (Vec2d \<Rightarrow> 'k) \<Rightarrow> Real \<Rightarrow> nat
     \<Rightarrow> 'k Neighborhood \<Rightarrow> error + 'k Neighborhood" where
  "relation_build_steps [] search_range current_kernel cutoff_radius index_i neighborhood
     = Inr neighborhood"
| "relation_build_steps (step # steps) search_range current_kernel cutoff_radius index_i
       neighborhood =
     (case updateConfigurationForParticle (fst step) search_range current_kernel cutoff_radius
             index_i (snd step) neighborhood of
        Inl e \<Rightarrow> Inl e
      | Inr neighborhood' \<Rightarrow>
          relation_build_steps steps search_range current_kernel cutoff_radius index_i
            neighborhood')"

section \<open>Theorems\<close>

subsection \<open>Double arithmetic\<close>

lemma round_to_even_of_int [simp]: "round_to_even (of_int k) = k"
  by (simp add: round_to_even_def)





lemma round_double_0 [simp]: "round_double 0 = 0"
  by (simp add: round_double_def)

lemma round_double_of_int:
  assumes "\<bar>k\<bar> < 2 ^ 53"
  shows "round_double (of_int k) = of_int k"
proof (cases "k = 0")
  case True
  then show ?thesis by simp
next
  case False
  let ?x = "of_int k :: real"
  have "1 \<le> \<bar>k\<bar>"
    using False by simp
  then have "(of_int 1 :: real) \<le> of_int \<bar>k\<bar>"
    by (simp only: of_int_le_iff)
  then have x1: "1 \<le> \<bar>?x\<bar>"
    by simp
  have "log 2 \<bar>?x\<bar> < 53"
  proof -
    have "(of_int \<bar>k\<bar> :: real) < of_int (2 ^ 53)"
      using assms by (simp only: of_int_less_iff)
    then have "\<bar>?x\<bar> < 2 ^ 53"
      by simp
    then have "\<bar>?x\<bar> < 2 powr 53"
      by (simp add: powr_realpow [symmetric])
    with x1 show ?thesis
      by (simp add: log_less_iff)
  qed
  then have e: "binary_exponent ?x \<le> 52"
    unfolding binary_exponent_def by (simp add: floor_le_iff)
  define n where "n = nat (52 - binary_exponent ?x)"
  have u: "ulp_at (binary_exponent ?x) = 1 / 2 ^ n"
  proof (cases "binary_exponent ?x = 52")
    case True
    then show ?thesis by (simp add: ulp_at_def n_def)
  next
    case False
    with e show ?thesis by (simp add: ulp_at_def n_def)
  qed
  have "?x / ulp_at (binary_exponent ?x) = of_int (k * 2 ^ n)"
    by (simp add: u)
  then have "round_to_even (?x / ulp_at (binary_exponent ?x)) = k * 2 ^ n"
    by (simp only: round_to_even_of_int)
  then show ?thesis
    using False by (simp add: round_double_def u)
qed

lemma round_double_numeral [simp]:
  "numeral n < (2 :: int) ^ 53 \<Longrightarrow> round_double (numeral n) = numeral n"
  and round_double_neg_numeral [simp]:
  "numeral n < (2 :: int) ^ 53 \<Longrightarrow> round_double (- numeral n) = - numeral n"
  and round_double_1 [simp]: "round_double 1 = 1"
  and round_double_neg_1 [simp]: "round_double (- 1) = - 1"
  using round_double_of_int [of "numeral n"] round_double_of_int [of "- numeral n"]
    round_double_of_int [of 1] round_double_of_int [of "- 1"]
  by simp_all


text \<open>
  Every \<open>k / 2^n\<close> with \<open>|k| < 2^53\<close> is a double (of the unbounded exponent range of the
  model) and is its own rounding.
\<close>

lemma round_double_dyadic:
  assumes "\<bar>k\<bar> < 2 ^ 53"
  shows "round_double (of_int k / 2 ^ n) = of_int k / 2 ^ n"
proof (cases "k = 0")
  case True
  then show ?thesis by simp
next
  case False
  let ?x = "of_int k / 2 ^ n :: real"
  have "1 \<le> \<bar>k\<bar>"
    using False by simp
  then have "(of_int 1 :: real) \<le> of_int \<bar>k\<bar>"
    by (simp only: of_int_le_iff)
  then have k1: "(1 :: real) \<le> \<bar>of_int k\<bar>"
    by simp
  have "(of_int \<bar>k\<bar> :: real) < of_int (2 ^ 53)"
    using assms by (simp only: of_int_less_iff)
  then have k2: "\<bar>of_int k :: real\<bar> < 2 ^ 53"
    by simp
  have ax: "\<bar>?x\<bar> = \<bar>of_int k\<bar> / 2 ^ n"
    by simp
  have xpos: "0 < \<bar>?x\<bar>"
    using k1 unfolding ax by simp
  have "\<bar>?x\<bar> < 2 ^ 53 / 2 ^ n"
    unfolding ax using k2 by (simp add: divide_strict_right_mono)
  also have "(2 :: real) ^ 53 / 2 ^ n = 2 powr (53 - real n)"
    by (simp add: powr_diff powr_realpow)
  finally have "log 2 \<bar>?x\<bar> < 53 - real n"
    using xpos by (simp add: log_less_iff)
  then have "log 2 \<bar>?x\<bar> < of_int (53 - int n)"
    by simp
  then have "\<lfloor>log 2 \<bar>?x\<bar>\<rfloor> < 53 - int n"
    by (simp only: floor_less_iff)
  then have e: "binary_exponent ?x \<le> 52 - int n"
    unfolding binary_exponent_def by linarith
  define d where "d = nat (52 - int n - binary_exponent ?x)"
  have m: "nat (52 - binary_exponent ?x) = n + d"
    using e by (simp add: d_def)
  have u: "ulp_at (binary_exponent ?x) = 1 / 2 ^ (n + d)"
  proof (cases "binary_exponent ?x = 52")
    case True
    with e m show ?thesis by (simp add: ulp_at_def)
  next
    case False
    with e m show ?thesis by (simp add: ulp_at_def)
  qed
  have "?x / ulp_at (binary_exponent ?x) = of_int (k * 2 ^ d)"
    by (simp add: u power_add)
  then have "round_to_even (?x / ulp_at (binary_exponent ?x)) = k * 2 ^ d"
    by (simp only: round_to_even_of_int)
  then show ?thesis
    using False by (simp add: round_double_def u power_add)
qed




subsection \<open>Generic entry points of the single-axis periodic condition\<close>

text \<open>
  C8. For every \<open>dt\<close> and every state, \<open>exec\<close> and \<open>parallel_exec\<close> of the single-axis
  periodic condition never return: each reports its diagnostic and ends the run with exit
  code 1, and the state at that point is the state the call started from, so no boundary
  work was done and no particle was modified.
\<close>

theorem periodic_generic_entry_points_rejected:
  "PeriodicConditionInAxisDirection_exec st dt
     = Inl (Exit 1 ''Error: each step should be called separately.'' st)
   \<and> PeriodicConditionInAxisDirection_parallel_exec st dt
     = Inl (Exit 1 ''Error: each step should be called separately.'' st)
   \<and> (\<nexists>st'. PeriodicConditionInAxisDirection_exec st dt = Inr st')
   \<and> (\<nexists>st'. PeriodicConditionInAxisDirection_parallel_exec st dt = Inr st')"
  by (simp add: PeriodicConditionInAxisDirection_exec_def
      PeriodicConditionInAxisDirection_parallel_exec_def)

subsection \<open>Setup of the periodic translation\<close>





subsection \<open>Wrapping of real particles by the periodic condition\<close>



subsection \<open>Mirror ghosts\<close>

lemma write_slot_nth_same [simp]: "k \<le> length xs \<Longrightarrow> write_slot xs k v ! k = v"
  by (simp add: write_slot_def nth_append)

lemma write_slot_nth_below [simp]: "j < k \<Longrightarrow> k \<le> length xs \<Longrightarrow> write_slot xs k v ! j = xs ! j"
  by (simp add: write_slot_def nth_append)


lemma insertAGhostParticle_fst [simp]:
  "fst (insertAGhostParticle ps index_i) = total_real_particles ps + number_of_ghost_particles ps"
  by (simp add: insertAGhostParticle_def Let_def)

lemma insertAGhostParticle_snd:
  "snd (insertAGhostParticle ps index_i) =
     ps\<lparr>pos_n := write_slot (pos_n ps) (total_real_particles ps + number_of_ghost_particles ps) (pos_n ps ! index_i),
        vel_n := write_slot (vel_n ps) (total_real_particles ps + number_of_ghost_particles ps) (vel_n ps ! index_i),
        sorted_id := write_slot (sorted_id ps) (total_real_particles ps + number_of_ghost_particles ps) index_i,
        other_data := write_slot (other_data ps) (total_real_particles ps + number_of_ghost_particles ps) (other_data ps ! index_i),
        number_of_ghost_particles := number_of_ghost_particles ps + 1\<rparr>"
  by (simp add: insertAGhostParticle_def Let_def)







text \<open>
  C4, as the code has it. For a body with a single real particle whose coordinate along
  the mirror axis is exactly the upper bound, the mirror create pass of the upper side
  creates no ghost: the proximity test is strict on both sides, so the ghost index list
  is empty after the pass and the particles and the grid entries are as before.
\<close>

theorem mirror_boundary_exact_no_ghost:
  assumes "total_real_particles (particles st) = 1"
    and "pos_n (particles st) ! 0 ! axis b = body_upper_bound b ! axis b"
  shows "CreatingGhostParticles_exec True b st dt = st\<lparr>mirror_ghost_particles := []\<rparr>
     \<and> mirror_ghost_particles (CreatingGhostParticles_exec True b st dt) = []
     \<and> particles (CreatingGhostParticles_exec True b st dt) = particles st
     \<and> cell_list_entries (CreatingGhostParticles_exec True b st dt) = cell_list_entries st"
  using assms
  by (simp add: CreatingGhostParticles_exec_def CreatingGhostParticles_checking_bound_def
      CreatingGhostParticles_checkUpperBound_def Let_def)

theorem mirror_boundary_exact_no_ghost_witness:
  "CreatingGhostParticles_exec True
      \<lparr>axis = 0, body_lower_bound = [0, 0], body_upper_bound = [10, 4],
       cell_spacing = 1, particle_spacing = 1/2, periodic_translation = [0, 0]\<rparr>
      \<lparr>particles = \<lparr>pos_n = [[10, 3]], vel_n = [[5, 6]], sorted_id = [0], other_data = [()],
         total_real_particles = 1, number_of_ghost_particles = 0\<rparr>,
       cell_list_entries = [(0, [10, 3])], mirror_ghost_particles = []\<rparr> 0
    = \<lparr>particles = \<lparr>pos_n = [[10, 3]], vel_n = [[5, 6]], sorted_id = [0], other_data = [()],
         total_real_particles = 1, number_of_ghost_particles = 0\<rparr>,
       cell_list_entries = [(0, [10, 3])], mirror_ghost_particles = []\<rparr>"
proof -
  let ?b = "\<lparr>axis = 0, body_lower_bound = [0, 0], body_upper_bound = [10, 4],
       cell_spacing = 1, particle_spacing = 1/2, periodic_translation = [0, 0]\<rparr>"
  let ?st = "\<lparr>particles = \<lparr>pos_n = [[10, 3]], vel_n = [[5, 6]], sorted_id = [0],
         other_data = [()], total_real_particles = 1, number_of_ghost_particles = 0\<rparr>,
       cell_list_entries = [(0, [10, 3])], mirror_ghost_particles = []\<rparr>"
  have h1: "total_real_particles (particles ?st) = 1"
    by simp
  have h2: "pos_n (particles ?st) ! 0 ! axis ?b = body_upper_bound ?b ! axis ?b"
    by simp
  from mirror_boundary_exact_no_ghost [OF h1 h2, of 0] show ?thesis
    by simp
qed

text \<open>
  C4, as stated, asks for exactly one ghost in that situation. With the upper bound at
  10 and the single particle at 10 along the axis, the pass leaves the ghost index list
  empty and the ghost counter at zero.
\<close>

theorem mirror_boundary_exact_one_ghost_counterexample:
  "length (mirror_ghost_particles (CreatingGhostParticles_exec True
      \<lparr>axis = 0, body_lower_bound = [0, 0], body_upper_bound = [10, 4],
       cell_spacing = 1, particle_spacing = 1/2, periodic_translation = [0, 0]\<rparr>
      \<lparr>particles = \<lparr>pos_n = [[10, 3]], vel_n = [[5, 6]], sorted_id = [0], other_data = [()],
         total_real_particles = 1, number_of_ghost_particles = 0\<rparr>,
       cell_list_entries = [(0, [10, 3])], mirror_ghost_particles = []\<rparr> 0)) \<noteq> 1
   \<and> number_of_ghost_particles (particles (CreatingGhostParticles_exec True
      \<lparr>axis = 0, body_lower_bound = [0, 0], body_upper_bound = [10, 4],
       cell_spacing = 1, particle_spacing = 1/2, periodic_translation = [0, 0]\<rparr>
      \<lparr>particles = \<lparr>pos_n = [[10, 3]], vel_n = [[5, 6]], sorted_id = [0], other_data = [()],
         total_real_particles = 1, number_of_ghost_particles = 0\<rparr>,
       cell_list_entries = [(0, [10, 3])], mirror_ghost_particles = []\<rparr> 0)) = 0"
  by (simp add: CreatingGhostParticles_exec_def CreatingGhostParticles_checking_bound_def
      CreatingGhostParticles_checkUpperBound_def Let_def)

subsection \<open>Bounding-box reductions\<close>

text \<open>
  C9. The reduction for the upper bound is seeded with \<open>numeric_limits<double>::min()\<close>,
  the smallest positive double, not with the most negative one. For two particles at
  \<open>(-1, -2)\<close> and \<open>(-3, -1)\<close> the componentwise maximum is \<open>(-1, -1)\<close>, but the
  reduction returns the seed in both components. The reduction for the lower bound,
  seeded with the largest double, returns the componentwise minimum \<open>(-3, -2)\<close>.
\<close>

theorem BodyUpperBound_negative_coordinates:
  "BodyUpperBound_exec 2
      \<lparr>pos_n = [[- 1, - 2], [- 3, - 1]], vel_n = [[0, 0], [0, 0]], sorted_id = [0, 1],
       other_data = [(), ()], total_real_particles = 2, number_of_ghost_particles = 0\<rparr> 0
     = [min_real_number, min_real_number]
   \<and> BodyUpperBound_exec 2
      \<lparr>pos_n = [[- 1, - 2], [- 3, - 1]], vel_n = [[0, 0], [0, 0]], sorted_id = [0, 1],
       other_data = [(), ()], total_real_particles = 2, number_of_ghost_particles = 0\<rparr> 0
     \<noteq> [- 1, - 1]
   \<and> 0 < min_real_number
   \<and> BodyLowerBound_exec 2
      \<lparr>pos_n = [[- 1, - 2], [- 3, - 1]], vel_n = [[0, 0], [0, 0]], sorted_id = [0, 1],
       other_data = [(), ()], total_real_particles = 2, number_of_ghost_particles = 0\<rparr> 0
     = [- 3, - 2]"
  by (simp add: BodyUpperBound_exec_def BodyLowerBound_exec_def ParticleDynamicsReduce_exec_def
      BodyUpperBound_initial_reference_def BodyLowerBound_initial_reference_def
      BodyUpperBound_ReduceFunction_def BodyLowerBound_ReduceFunction_def
      ReduceUpperBound_def ReduceLowerBound_def min_real_number_def max_real_number_def
      numeral_2_eq_2)

subsection \<open>The relation builder: window, capacity and slots\<close>

lemma int_cast_id: "- (2 ^ 31) \<le> x \<Longrightarrow> x < 2 ^ 31 \<Longrightarrow> int_cast x = x"
  by (simp add: int_cast_def)

lemma int_cast_range: "- (2 ^ 31) \<le> int_cast x \<and> int_cast x < 2 ^ 31"
proof -
  have "0 \<le> (x + 2 ^ 31) mod (2 ^ 32 :: int)" "(x + 2 ^ 31) mod (2 ^ 32 :: int) < 2 ^ 32"
    by simp_all
  moreover have "(2 :: int) ^ 32 = 2 ^ 31 + 2 ^ 31"
    by simp
  ultimately show ?thesis
    unfolding int_cast_def by linarith
qed

lemma int_cast_le_nonneg:
  assumes "0 \<le> n"
  shows "int_cast n \<le> n"
proof (cases "n < 2 ^ 31")
  case True
  with assms show ?thesis by (simp add: int_cast_id)
next
  case False
  with int_cast_range [of n] show ?thesis by linarith
qed

lemma int_cast_pred_le:
  assumes "0 \<le> n"
  shows "int_cast (int_cast n - 1) \<le> n - 1"
proof (cases "int_cast n = - (2 ^ 31)")
  case False
  with int_cast_range [of n] have "int_cast (int_cast n - 1) = int_cast n - 1"
    by (intro int_cast_id) linarith+
  with int_cast_le_nonneg [OF assms] show ?thesis by linarith
next
  case True
  have "\<not> n < 2 ^ 31"
  proof
    assume "n < 2 ^ 31"
    with assms have "int_cast n = n" by (simp add: int_cast_id)
    with True assms show False by simp
  qed
  with int_cast_range [of "int_cast n - 1"] show ?thesis by linarith
qed

lemma accepted_relations_Nil [simp]: "accepted_relations k c p [] = []"
  by (simp add: accepted_relations_def)

lemma accepted_relations_Cons:
  "accepted_relations k c p (tp # tps) =
     (if normSqr (vec2_sub p (snd tp)) \<le> c
      then neighbor_relation k p tp # accepted_relations k c p tps
      else accepted_relations k c p tps)"
  by (simp add: accepted_relations_def)

lemma accepted_relations_append:
  "accepted_relations k c p (xs @ ys) = accepted_relations k c p xs @ accepted_relations k c p ys"
  by (simp add: accepted_relations_def)

lemma check_candidate_rejected:
  "\<not> normSqr (vec2_sub p (snd tp)) \<le> c \<Longrightarrow> check_candidate k c i p tp (nb, cnt) = (nb, cnt)"
  by (simp add: check_candidate_def Let_def)

lemma check_candidate_overwrite:
  "normSqr (vec2_sub p (snd tp)) \<le> c \<Longrightarrow> cnt < memory_size nb \<Longrightarrow>
   check_candidate k c i p tp (nb, cnt)
     = (nb\<lparr>relations := (relations nb)[cnt := neighbor_relation k p tp]\<rparr>, cnt + 1)"
  by (simp add: check_candidate_def initializeNeighborRelation_def neighbor_relation_def Let_def)

lemma check_candidate_append:
  "normSqr (vec2_sub p (snd tp)) \<le> c \<Longrightarrow> memory_size nb \<le> cnt \<Longrightarrow>
   check_candidate k c i p tp (nb, cnt)
     = (nb\<lparr>relations := relations nb @ [neighbor_relation k p tp],
           memory_size := memory_size nb + 1\<rparr>, cnt + 1)"
  by (simp add: check_candidate_def createNeighborRelation_def neighbor_relation_def Let_def)

lemma fold_check_candidate:
  assumes "memory_size nb = length (relations nb)" and "cnt \<le> length (relations nb)"
  shows "fold (check_candidate k c i p) tps (nb, cnt) =
     (nb\<lparr>relations := take cnt (relations nb) @ accepted_relations k c p tps
                        @ drop (cnt + length (accepted_relations k c p tps)) (relations nb),
         memory_size := max (memory_size nb) (cnt + length (accepted_relations k c p tps))\<rparr>,
      cnt + length (accepted_relations k c p tps))"
  using assms
proof (induction tps arbitrary: nb cnt)
  case Nil
  then show ?case by simp
next
  case (Cons tp tps)
  show ?case
  proof (cases "normSqr (vec2_sub p (snd tp)) \<le> c")
    case False
    with Cons show ?thesis
      by (simp add: check_candidate_rejected accepted_relations_Cons)
  next
    case True
    show ?thesis
    proof (cases "cnt < memory_size nb")
      case lt: True
      let ?nb = "nb\<lparr>relations := (relations nb)[cnt := neighbor_relation k p tp]\<rparr>"
      have step: "check_candidate k c i p tp (nb, cnt) = (?nb, cnt + 1)"
        using True lt by (rule check_candidate_overwrite)
      have wf: "memory_size ?nb = length (relations ?nb)" "cnt + 1 \<le> length (relations ?nb)"
        using Cons.prems lt by simp_all
      have tk: "take (Suc cnt) ((relations nb)[cnt := neighbor_relation k p tp]) = take cnt (relations nb) @ [neighbor_relation k p tp]"
        using lt Cons.prems by (simp add: take_Suc_conv_app_nth)
      show ?thesis
        using Cons.IH [OF wf] True
        by (simp add: step accepted_relations_Cons tk)
    next
      case ge: False
      let ?nb = "nb\<lparr>relations := relations nb @ [neighbor_relation k p tp],
           memory_size := memory_size nb + 1\<rparr>"
      have step: "check_candidate k c i p tp (nb, cnt) = (?nb, cnt + 1)"
        using True ge by (intro check_candidate_append) simp_all
      have eq: "cnt = length (relations nb)"
        using ge Cons.prems by simp
      have wf: "memory_size ?nb = length (relations ?nb)" "cnt + 1 \<le> length (relations ?nb)"
        using Cons.prems eq by simp_all
      have step': "check_candidate k c i p tp (nb, length (relations nb))
          = (?nb, Suc (length (relations nb)))"
        using step eq by simp
      show ?thesis
        using Cons.IH [OF wf] True eq Cons.prems
        by (simp add: step' accepted_relations_Cons)
    qed
  qed
qed

lemma scan_cells_in_range:
  assumes "\<forall>(l, m) \<in> set window. 0 \<le> l \<and> nat l < length cells \<and> 0 \<le> m \<and> nat m < length (cells ! nat l)"
  shows "scan_cells k c i p cells window acc
     = Inr (fold (check_candidate k c i p)
              (concat (map (\<lambda>(l, m). cells ! nat l ! nat m) window)) acc)"
  using assms
proof (induction window arbitrary: acc)
  case Nil
  then show ?case by simp
next
  case (Cons x window)
  obtain l m where x: "x = (l, m)"
    by (cases x)
  from Cons.prems x have here: "cell_at cells l m = Inr (cells ! nat l ! nat m)"
    by (simp add: cell_at_def)
  from Cons.prems have rest: "\<forall>(l, m) \<in> set window.
      0 \<le> l \<and> nat l < length cells \<and> 0 \<le> m \<and> nat m < length (cells ! nat l)"
    by simp
  show ?case
    by (simp add: x here Cons.IH [OF rest])
qed

lemma search_window_bounds:
  assumes "(l, m) \<in> set (search_window mesh sr p)"
  shows "0 \<le> l \<and> l \<le> int (fst (NumberOfCells mesh)) - 1
       \<and> 0 \<le> m \<and> m \<le> int (snd (NumberOfCells mesh)) - 1"
proof -
  have a: "int_cast (int_cast (int (fst (NumberOfCells mesh))) - 1) \<le> int (fst (NumberOfCells mesh)) - 1"
    by (rule int_cast_pred_le) simp
  have b: "int_cast (int_cast (int (snd (NumberOfCells mesh))) - 1) \<le> int (snd (NumberOfCells mesh)) - 1"
    by (rule int_cast_pred_le) simp
  from assms a b show ?thesis
    by (auto simp: search_window_def Let_def SMAX_def SMIN_def)
qed

lemma search_window_in_range:
  assumes "mesh_wf mesh" and "(l, m) \<in> set (search_window mesh sr p)"
  shows "0 \<le> l \<and> nat l < length (CellLinkedLists mesh)
       \<and> 0 \<le> m \<and> nat m < length (CellLinkedLists mesh ! nat l)"
proof -
  from search_window_bounds [OF assms(2)]
  have b: "0 \<le> l" "l \<le> int (fst (NumberOfCells mesh)) - 1"
    "0 \<le> m" "m \<le> int (snd (NumberOfCells mesh)) - 1"
    by simp_all
  from b assms(1) have l: "nat l < length (CellLinkedLists mesh)"
    by (simp add: mesh_wf_def)
  with assms(1) have "length (CellLinkedLists mesh ! nat l) = snd (NumberOfCells mesh)"
    by (simp add: mesh_wf_def list_all_length)
  with b l show ?thesis
    by simp
qed

lemma updateConfigurationForParticle_result:
  assumes "mesh_wf mesh" and "neighborhood_wf nb"
  shows "updateConfigurationForParticle mesh sr k cutoff i p nb =
     Inr (nb\<lparr>current_size := length (accepted_relations k (round_double (cutoff * cutoff)) p (visited_entries mesh sr p)),
             memory_size := max (memory_size nb)
                (length (accepted_relations k (round_double (cutoff * cutoff)) p (visited_entries mesh sr p))),
             relations := accepted_relations k (round_double (cutoff * cutoff)) p (visited_entries mesh sr p)
                @ drop (length (accepted_relations k (round_double (cutoff * cutoff)) p (visited_entries mesh sr p)))
                    (relations nb)\<rparr>)"
proof -
  have rng: "\<forall>(l, m) \<in> set (search_window mesh sr p).
      0 \<le> l \<and> nat l < length (CellLinkedLists mesh)
      \<and> 0 \<le> m \<and> nat m < length (CellLinkedLists mesh ! nat l)"
    using search_window_in_range [OF assms(1)] by blast
  have wf: "memory_size nb = length (relations nb)" "0 \<le> length (relations nb)"
    using assms(2) by (simp_all add: neighborhood_wf_def)
  show ?thesis
    unfolding updateConfigurationForParticle_def Let_def
      scan_cells_in_range [OF rng] visited_entries_def [symmetric]
      fold_check_candidate [OF wf]
    by simp
qed


lemma relation_build_steps_capacity:
  assumes "list_all mesh_wf (map fst steps)" and "neighborhood_wf nb"
  shows "\<exists>nb'. relation_build_steps steps sr k cutoff i nb = Inr nb'
           \<and> memory_size nb \<le> memory_size nb' \<and> neighborhood_wf nb'"
  using assms
proof (induction steps arbitrary: nb)
  case Nil
  then show ?case by simp
next
  case (Cons step steps)
  let ?acc = "accepted_relations k (round_double (cutoff * cutoff)) (snd step) (visited_entries (fst step) sr (snd step))"
  let ?nb = "nb\<lparr>current_size := length ?acc,
             memory_size := max (memory_size nb) (length ?acc),
             relations := ?acc @ drop (length ?acc) (relations nb)\<rparr>"
  from Cons.prems have m: "mesh_wf (fst step)" and ms: "list_all mesh_wf (map fst steps)"
    by simp_all
  have one: "updateConfigurationForParticle (fst step) sr k cutoff i (snd step) nb = Inr ?nb"
    using m Cons.prems(2) by (rule updateConfigurationForParticle_result)
  have wf: "neighborhood_wf ?nb"
    using Cons.prems(2) by (auto simp: neighborhood_wf_def)
  from Cons.IH [OF ms wf] obtain nb' where
    r: "relation_build_steps steps sr k cutoff i ?nb = Inr nb'"
      "memory_size ?nb \<le> memory_size nb'" "neighborhood_wf nb'"
    by blast
  from r(2) have "memory_size nb \<le> memory_size nb'"
    by simp
  with r(1,3) one show ?case
    by simp
qed

text \<open>
  C5. In the loop over the candidates, an accepted candidate overwrites the slot at the
  running count while the count is below the capacity \<open>memory_size_\<close>, and is appended,
  with the capacity growing by one, once the count has reached it; a rejected candidate
  changes nothing. For a well-formed grid and neighbourhood the build for one particle
  therefore returns the neighbourhood whose first slots are the accepted entries in
  visiting order, followed by the old slots beyond them, with \<open>current_size_\<close> the
  accepted count and the capacity the maximum of the old capacity and that count. So the
  capacity does not decrease in one build, the neighbourhood stays well-formed, and over
  any sequence of successive builds the capacity never decreases.
\<close>

theorem neighborhood_capacity_policy:
  assumes "mesh_wf mesh" and "neighborhood_wf nb"
  shows
    "(\<forall>tp cnt nb0. normSqr (vec2_sub p (snd tp)) \<le> round_double (cutoff * cutoff) \<and> cnt < memory_size nb0 \<longrightarrow>
        check_candidate k (round_double (cutoff * cutoff)) i p tp (nb0, cnt)
          = (nb0\<lparr>relations := (relations nb0)[cnt := neighbor_relation k p tp]\<rparr>, cnt + 1))
     \<and> (\<forall>tp cnt nb0. normSqr (vec2_sub p (snd tp)) \<le> round_double (cutoff * cutoff) \<and> memory_size nb0 \<le> cnt \<longrightarrow>
        check_candidate k (round_double (cutoff * cutoff)) i p tp (nb0, cnt)
          = (nb0\<lparr>relations := relations nb0 @ [neighbor_relation k p tp],
                 memory_size := memory_size nb0 + 1\<rparr>, cnt + 1))
     \<and> (\<forall>tp cnt nb0. \<not> normSqr (vec2_sub p (snd tp)) \<le> round_double (cutoff * cutoff) \<longrightarrow>
        check_candidate k (round_double (cutoff * cutoff)) i p tp (nb0, cnt) = (nb0, cnt))
     \<and> updateConfigurationForParticle mesh sr k cutoff i p nb =
         Inr (nb\<lparr>current_size :=
                   length (accepted_relations k (round_double (cutoff * cutoff)) p (visited_entries mesh sr p)),
                 memory_size := max (memory_size nb)
                   (length (accepted_relations k (round_double (cutoff * cutoff)) p (visited_entries mesh sr p))),
                 relations := accepted_relations k (round_double (cutoff * cutoff)) p (visited_entries mesh sr p)
                   @ drop (length (accepted_relations k (round_double (cutoff * cutoff)) p (visited_entries mesh sr p)))
                       (relations nb)\<rparr>)
     \<and> (\<exists>nb'. updateConfigurationForParticle mesh sr k cutoff i p nb = Inr nb'
           \<and> memory_size nb \<le> memory_size nb'
           \<and> neighborhood_wf nb'
           \<and> take (current_size nb') (relations nb')
               = accepted_relations k (round_double (cutoff * cutoff)) p (visited_entries mesh sr p))
     \<and> (list_all mesh_wf (map fst steps) \<longrightarrow>
          (\<exists>nb'. relation_build_steps steps sr k cutoff i nb = Inr nb'
             \<and> memory_size nb \<le> memory_size nb' \<and> neighborhood_wf nb'))"
proof -
  let ?acc = "accepted_relations k (round_double (cutoff * cutoff)) p (visited_entries mesh sr p)"
  let ?nb = "nb\<lparr>current_size := length ?acc,
             memory_size := max (memory_size nb) (length ?acc),
             relations := ?acc @ drop (length ?acc) (relations nb)\<rparr>"
  have one: "updateConfigurationForParticle mesh sr k cutoff i p nb = Inr ?nb"
    using assms by (rule updateConfigurationForParticle_result)
  have props: "memory_size nb \<le> memory_size ?nb \<and> neighborhood_wf ?nb
      \<and> take (current_size ?nb) (relations ?nb) = ?acc"
    using assms(2) by (auto simp: neighborhood_wf_def)
  have ex: "\<exists>nb'. updateConfigurationForParticle mesh sr k cutoff i p nb = Inr nb'
           \<and> memory_size nb \<le> memory_size nb' \<and> neighborhood_wf nb'
           \<and> take (current_size nb') (relations nb') = ?acc"
    using one props by blast
  have steps: "list_all mesh_wf (map fst steps) \<longrightarrow>
          (\<exists>nb'. relation_build_steps steps sr k cutoff i nb = Inr nb'
             \<and> memory_size nb \<le> memory_size nb' \<and> neighborhood_wf nb')"
    using relation_build_steps_capacity [OF _ assms(2)] by blast
  have ow: "\<forall>tp cnt nb0. normSqr (vec2_sub p (snd tp)) \<le> round_double (cutoff * cutoff) \<and> cnt < memory_size nb0 \<longrightarrow>
        check_candidate k (round_double (cutoff * cutoff)) i p tp (nb0, cnt)
          = (nb0\<lparr>relations := (relations nb0)[cnt := neighbor_relation k p tp]\<rparr>, cnt + 1)"
    by (simp add: check_candidate_overwrite)
  have ap: "\<forall>tp cnt nb0. normSqr (vec2_sub p (snd tp)) \<le> round_double (cutoff * cutoff) \<and> memory_size nb0 \<le> cnt \<longrightarrow>
        check_candidate k (round_double (cutoff * cutoff)) i p tp (nb0, cnt)
          = (nb0\<lparr>relations := relations nb0 @ [neighbor_relation k p tp],
                 memory_size := memory_size nb0 + 1\<rparr>, cnt + 1)"
    by (simp add: check_candidate_append)
  have rj: "\<forall>tp cnt nb0. \<not> normSqr (vec2_sub p (snd tp)) \<le> round_double (cutoff * cutoff) \<longrightarrow>
        check_candidate k (round_double (cutoff * cutoff)) i p tp (nb0, cnt) = (nb0, cnt)"
    by (simp add: check_candidate_rejected)
  from ow ap rj one ex steps show ?thesis
    by blast
qed

theorem neighborhood_capacity_policy_witness:
  "updateConfigurationForParticle
      \<lparr>MeshLowerBound = (0, 0), CellSpacing = 1, NumberOfCells = (2, 2),
       CellLinkedLists = [[[(4, (0, 0))], [(5, (0, 1))]], [[(6, (1, 0))], []]]\<rparr>
      1 (\<lambda>d. ()) 1 0 (0, 0)
      \<lparr>current_size = 0, memory_size = 1,
       relations = [\<lparr>j_index = 7, r_ij = (0, 0), W_ij = ()\<rparr>]\<rparr>
    = Inr \<lparr>current_size = 3, memory_size = 3,
       relations = [\<lparr>j_index = 4, r_ij = (0, 0), W_ij = ()\<rparr>,
                    \<lparr>j_index = 5, r_ij = (0, - 1), W_ij = ()\<rparr>,
                    \<lparr>j_index = 6, r_ij = (- 1, 0), W_ij = ()\<rparr>]\<rparr>"
proof -
  let ?mesh = "\<lparr>MeshLowerBound = (0, 0), CellSpacing = 1, NumberOfCells = (2, 2),
       CellLinkedLists = [[[(4, (0, 0))], [(5, (0, 1))]], [[(6, (1, 0))], []]]\<rparr>"
  let ?nb = "\<lparr>current_size = 0, memory_size = 1,
       relations = [\<lparr>j_index = 7, r_ij = (0, 0), W_ij = ()\<rparr>]\<rparr>"
  have h1: "mesh_wf ?mesh"
    by (simp add: mesh_wf_def)
  have h2: "neighborhood_wf ?nb"
    by (simp add: neighborhood_wf_def)
  have w: "search_window ?mesh 1 (0, 0) = [(0, 0), (0, 1), (1, 0), (1, 1)]"
    by (simp add: search_window_def GridIndexFromPosition_def clamp_cell_def int_cast_def
        SMAX_def SMIN_def Let_def upto.simps)
  have v: "visited_entries ?mesh 1 (0, 0)
      = [(4, (0, 0)), (5, (0, 1)), (6, (1, 0))]"
    unfolding visited_entries_def w by simp
  from neighborhood_capacity_policy [OF h1 h2, of "(0, 0)" 1 "\<lambda>d. ()" 0 1 "[]"]
  show ?thesis
    unfolding v
    by (simp add: accepted_relations_def neighbor_relation_def normSqr_def vec2_sub_def)
qed

text \<open>
  C6. For every particle position, also one that maps outside the nominal bounds of the
  grid, and every search range, each cell index pair the window loops visit lies within
  \<open>[0, number_of_cells - 1]\<close> in each dimension. With a cell array of the announced
  dimensions every read of a cell is therefore in range, and the build for the particle
  returns a neighbourhood: it has no failure path.
\<close>

theorem window_cells_in_range:
  assumes "mesh_wf mesh"
  shows "(\<forall>(l, m) \<in> set (search_window mesh sr p).
            0 \<le> l \<and> l \<le> int (fst (NumberOfCells mesh)) - 1
            \<and> 0 \<le> m \<and> m \<le> int (snd (NumberOfCells mesh)) - 1
            \<and> cell_at (CellLinkedLists mesh) l m = Inr (CellLinkedLists mesh ! nat l ! nat m))
     \<and> (\<exists>nb'. updateConfigurationForParticle mesh sr k cutoff i p nb = Inr nb')"
proof -
  have rng: "\<forall>(l, m) \<in> set (search_window mesh sr p).
      0 \<le> l \<and> nat l < length (CellLinkedLists mesh)
      \<and> 0 \<le> m \<and> nat m < length (CellLinkedLists mesh ! nat l)"
    using search_window_in_range [OF assms] by blast
  have cells: "\<forall>(l, m) \<in> set (search_window mesh sr p).
            0 \<le> l \<and> l \<le> int (fst (NumberOfCells mesh)) - 1
            \<and> 0 \<le> m \<and> m \<le> int (snd (NumberOfCells mesh)) - 1
            \<and> cell_at (CellLinkedLists mesh) l m = Inr (CellLinkedLists mesh ! nat l ! nat m)"
  proof (clarify, intro conjI)
    fix l m
    assume w: "(l, m) \<in> set (search_window mesh sr p)"
    from search_window_bounds [OF w]
    show "0 \<le> l" "l \<le> int (fst (NumberOfCells mesh)) - 1"
      "0 \<le> m" "m \<le> int (snd (NumberOfCells mesh)) - 1"
      by simp_all
    from search_window_in_range [OF assms w]
    show "cell_at (CellLinkedLists mesh) l m = Inr (CellLinkedLists mesh ! nat l ! nat m)"
      by (simp add: cell_at_def)
  qed
  have "\<exists>nb'. updateConfigurationForParticle mesh sr k cutoff i p nb = Inr nb'"
    unfolding updateConfigurationForParticle_def Let_def scan_cells_in_range [OF rng]
    by (simp split: prod.splits)
  with cells show ?thesis
    by blast
qed

theorem window_cells_in_range_witness:
  "updateConfigurationForParticle
      \<lparr>MeshLowerBound = (0, 0), CellSpacing = 1, NumberOfCells = (2, 2),
       CellLinkedLists = [[[(4, (0, 0))], [(5, (0, 1))]], [[(6, (1, 0))], []]]\<rparr>
      5 (\<lambda>d. ()) 1 0 (- 3, 7)
      \<lparr>current_size = 0, memory_size = 0, relations = []\<rparr>
     \<noteq> Inl OutOfRange
   \<and> set (search_window
      \<lparr>MeshLowerBound = (0, 0), CellSpacing = 1, NumberOfCells = (2, 2),
       CellLinkedLists = [[[(4, (0, 0))], [(5, (0, 1))]], [[(6, (1, 0))], []]]\<rparr>
      5 (- 3, 7)) = {(0, 0), (0, 1), (1, 0), (1, 1)}"
proof -
  let ?mesh = "\<lparr>MeshLowerBound = (0, 0), CellSpacing = 1, NumberOfCells = (2, 2),
       CellLinkedLists = [[[(4, (0, 0))], [(5, (0, 1))]], [[(6, (1, 0))], []]]\<rparr>"
  have h1: "mesh_wf ?mesh"
    by (simp add: mesh_wf_def)
  have w: "search_window ?mesh 5 (- 3, 7) = [(0, 0), (0, 1), (1, 0), (1, 1)]"
    by (simp add: search_window_def GridIndexFromPosition_def clamp_cell_def int_cast_def
        SMAX_def SMIN_def Let_def upto.simps)
  from window_cells_in_range [OF h1, of 5 "(- 3, 7)" "\<lambda>d. ()" 1 0
      "\<lparr>current_size = 0, memory_size = 0, relations = []\<rparr>"]
  have "\<exists>nb'. updateConfigurationForParticle ?mesh 5 (\<lambda>d. ()) 1 0 (- 3, 7)
      \<lparr>current_size = 0, memory_size = 0, relations = []\<rparr> = Inr nb'"
    by blast
  then show ?thesis
    unfolding w by auto
qed

subsection \<open>Grid search against the exhaustive search\<close>












lemma insertEntry_fields [simp]:
  "MeshLowerBound (insertEntry g e) = MeshLowerBound g"
  "CellSpacing (insertEntry g e) = CellSpacing g"
  "NumberOfCells (insertEntry g e) = NumberOfCells g"
  by (simp_all add: insertEntry_def Let_def split_beta)

















subsection \<open>Periodic ghosts\<close>



lemma CreatPeriodicGhostParticles_checkLowerBound_cases:
  "CreatPeriodicGhostParticles_checkLowerBound b s j dt =
     (if pos_n (particles s) ! j ! axis b > body_lower_bound b ! axis b
         \<and> pos_n (particles s) ! j ! axis b
             < round_double (body_lower_bound b ! axis b + cell_spacing b)
      then s\<lparr>particles := snd (insertAGhostParticle (particles s) j),
             ghost_particles := (ghost_particles s)[0 := ghost_particles s ! 0 @
                [total_real_particles (particles s) + number_of_ghost_particles (particles s)]],
             cell_list_entries := cell_list_entries s @
                [(total_real_particles (particles s) + number_of_ghost_particles (particles s),
                  periodic_ghost_position b 0 (pos_n (particles s) ! j))]\<rparr>
      else s)"
  by (simp add: CreatPeriodicGhostParticles_checkLowerBound_def Let_def split_beta
      InsertACellLinkedListDataEntry_def periodic_ghost_position_def)

lemma CreatPeriodicGhostParticles_checkUpperBound_cases:
  "CreatPeriodicGhostParticles_checkUpperBound b s j dt =
     (if pos_n (particles s) ! j ! axis b < body_upper_bound b ! axis b
         \<and> pos_n (particles s) ! j ! axis b
             > round_double (body_upper_bound b ! axis b - cell_spacing b)
      then s\<lparr>particles := snd (insertAGhostParticle (particles s) j),
             ghost_particles := (ghost_particles s)[1 := ghost_particles s ! 1 @
                [total_real_particles (particles s) + number_of_ghost_particles (particles s)]],
             cell_list_entries := cell_list_entries s @
                [(total_real_particles (particles s) + number_of_ghost_particles (particles s),
                  periodic_ghost_position b 1 (pos_n (particles s) ! j))]\<rparr>
      else s)"
  by (simp add: CreatPeriodicGhostParticles_checkUpperBound_def Let_def split_beta
      InsertACellLinkedListDataEntry_def periodic_ghost_position_def)










text \<open>
  The create pass on two real particles and a ghost of an earlier pass, the first real
  particle within one cell spacing of the lower bound and the second within one of the
  upper bound: two ghost slots are appended as copies of the two particles, their
  indices go to the lower-side and the upper-side list, and the grid receives the
  translated positions.
\<close>

lemma periodic_create_pass_example:
  "CreatPeriodicGhostParticles_exec
           \<lparr>axis = 0, body_lower_bound = [0, 0], body_upper_bound = [10, 4],
            cell_spacing = 1, particle_spacing = 1/2, periodic_translation = [10, 0]\<rparr>
           \<lparr>particles = \<lparr>pos_n = [[1/4, 3], [39/4, 2], [39/4, 2]],
              vel_n = [[5, 6], [7, 8], [7, 8]],
              sorted_id = [0, 1, 1], other_data = [(), (), ()],
              total_real_particles = 2, number_of_ghost_particles = 1\<rparr>,
            cell_list_entries = [(0, [1/4, 3]), (1, [39/4, 2]), (2, [39/4, 6])],
            ghost_particles = [[7], [8]]\<rparr> 0
    = \<lparr>particles = \<lparr>pos_n = [[1/4, 3], [39/4, 2], [39/4, 2], [1/4, 3], [39/4, 2]],
              vel_n = [[5, 6], [7, 8], [7, 8], [5, 6], [7, 8]],
              sorted_id = [0, 1, 1, 0, 1], other_data = [(), (), (), (), ()],
              total_real_particles = 2, number_of_ghost_particles = 3\<rparr>,
            cell_list_entries = [(0, [1/4, 3]), (1, [39/4, 2]), (2, [39/4, 6]),
                                 (3, [41/4, 3]), (4, [- (1/4), 2])],
            ghost_particles = [[3], [4]]\<rparr>"
proof -
  have r: "round_double (41 / 4) = 41 / 4"
    using round_double_dyadic [of 41 2] by simp
  have q: "round_double (- (1 / 4)) = - (1 / 4)"
    using round_double_dyadic [of "- 1" 2] by simp
  show ?thesis
    by (simp add: CreatPeriodicGhostParticles_exec_def CreatPeriodicGhostParticles_setupDynamics_def
      CreatPeriodicGhostParticles_checkLowerBound_cases
      CreatPeriodicGhostParticles_checkUpperBound_cases insertAGhostParticle_snd
      periodic_ghost_position_def
      write_slot_def vec_add_def vec_sub_def Let_def numeral_2_eq_2 r q)
qed


end
